theory Spec2Isabelle
  imports Main "HOL-Library.Word"
begin

unbundle bit_operations_syntax

section \<open>Free-space bitmap primitives (include/gavran/db.h)\<close>

text \<open>
  The bitmap is an array of \<open>uint64_t\<close>. A position is a \<open>uint64_t\<close>; the word index
  is \<open>pos / 64\<close> and the bit inside the word is \<open>pos % 64\<close>. The constant \<open>1UL\<close> is an
  \<open>unsigned long\<close>, 64 bits wide on the LP64 targets the library's POSIX layer is written
  for, so \<open>1UL << pos % 64\<close> is \<open>push_bit (pos mod 64) 1\<close> on a 64-bit word.

  The C primitives do not check bounds: an index outside the array is undefined behaviour.
  The model returns \<open>None\<close> there, so nothing is stated about such calls.
\<close>

type_synonym u64 = "64 word"

definition set_bit_buf :: "u64 list \<Rightarrow> u64 \<Rightarrow> u64 list option" where
  "set_bit_buf buffer pos =
     (if unat (pos div 64) < length buffer
      then Some (buffer[unat (pos div 64) :=
                   (buffer ! unat (pos div 64)) OR push_bit (unat (pos mod 64)) 1])
      else None)"

definition is_bit_set :: "u64 list \<Rightarrow> u64 \<Rightarrow> bool option" where
  "is_bit_set buffer pos =
     (if unat (pos div 64) < length buffer
      then Some ((buffer ! unat (pos div 64)) AND push_bit (unat (pos mod 64)) 1 \<noteq> 0)
      else None)"

definition clear_bit :: "u64 list \<Rightarrow> u64 \<Rightarrow> u64 list option" where
  "clear_bit buffer pos =
     (if unat (pos div 64) < length buffer
      then Some (buffer[unat (pos div 64) :=
                   (buffer ! unat (pos div 64)) XOR push_bit (unat (pos mod 64)) 1])
      else None)"

section \<open>Page metadata and file header records (include/gavran/db.h)\<close>

text \<open>
  The records of \<open>db.h\<close> are described as C types, and their sizes and member offsets are
  computed by the layout rules the compiler applies on the library's targets: every scalar
  is aligned to its own size, a member is placed at the next multiple of its alignment, a
  struct is padded to a multiple of its strictest member alignment, a union is as large as
  its largest member (padded likewise), and an enum declared \<open>__packed__\<close> takes the
  smallest integer type that holds its enumerators.
\<close>

datatype ctype =
    UInt8
  | UInt64
  | CChar
  | PackedEnum nat
  | Array ctype nat
  | Member string ctype
  | Struct "ctype list"
  | Union "ctype list"

definition align_up :: "nat \<Rightarrow> nat \<Rightarrow> nat" where
  "align_up n a = ((n + a - 1) div a) * a"

fun struct_end :: "nat \<Rightarrow> (nat \<times> nat) list \<Rightarrow> nat" where
  "struct_end off [] = off"
| "struct_end off ((sz, al) # ms) = struct_end (align_up off al + sz) ms"

fun member_offsets :: "nat \<Rightarrow> (nat \<times> nat) list \<Rightarrow> nat list" where
  "member_offsets off [] = []"
| "member_offsets off ((sz, al) # ms) =
     align_up off al # member_offsets (align_up off al + sz) ms"

text \<open>\<open>layout t\<close> is the pair (size, alignment) of \<open>t\<close>. \<open>PackedEnum hi\<close> is a packed
  enum whose largest enumerator is \<open>hi\<close>.\<close>

fun layout :: "ctype \<Rightarrow> nat \<times> nat" where
  "layout UInt8 = (1, 1)"
| "layout UInt64 = (8, 8)"
| "layout CChar = (1, 1)"
| "layout (PackedEnum hi) =
     (if hi < 2 ^ 8 then (1, 1) else if hi < 2 ^ 16 then (2, 2) else (4, 4))"
| "layout (Array t n) = (n * fst (layout t), snd (layout t))"
| "layout (Member name t) = layout t"
| "layout (Struct ms) =
     (let ls = map layout ms; al = fold max (map snd ls) 1
      in (align_up (struct_end 0 ls) al, al))"
| "layout (Union ms) =
     (let ls = map layout ms; al = fold max (map snd ls) 1
      in (align_up (fold max (map fst ls) 0) al, al))"

definition sizeof :: "ctype \<Rightarrow> nat" where
  "sizeof t = fst (layout t)"

fun member_name :: "ctype \<Rightarrow> string" where
  "member_name (Member name t) = name"
| "member_name t = []"

text \<open>\<open>members t\<close> lists (name, offset, size) for each member of a struct or union; an
  anonymous member has the empty name.\<close>

fun members :: "ctype \<Rightarrow> (string \<times> nat \<times> nat) list" where
  "members (Struct ms) =
     zip (map member_name ms) (zip (member_offsets 0 (map layout ms)) (map sizeof ms))"
| "members (Union ms) =
     zip (map member_name ms) (zip (map (\<lambda>m. 0) ms) (map sizeof ms))"
| "members (Member name t) = members t"
| "members t = []"

text \<open>The three sizes below come from libsodium's \<open>sodium.h\<close>, which \<open>db.h\<close> includes:
  the AES256-GCM public nonce is 12 bytes, its authentication tag 16 bytes, and the
  generic hash (BLAKE2b) 32 bytes.\<close>

definition crypto_aead_aes256gcm_NPUBBYTES :: nat where
  "crypto_aead_aes256gcm_NPUBBYTES = 12"

definition crypto_aead_aes256gcm_ABYTES :: nat where
  "crypto_aead_aes256gcm_ABYTES = 16"

definition crypto_generichash_BYTES :: nat where
  "crypto_generichash_BYTES = 32"

text \<open>The two unions of \<open>db.h\<close> are anonymous; they are named here
  \<open>page_crypto_union\<close> (inside \<open>page_crypto_metadata_t\<close>) and \<open>page_metadata_semantic\<close>
  (inside \<open>page_metadata_t\<close>).\<close>

definition page_crypto_union :: ctype where
  "page_crypto_union = Union
     [Member ''aes_gcm'' (Struct
        [Member ''nonce'' (Array UInt8 crypto_aead_aes256gcm_NPUBBYTES),
         Member ''mac'' (Array UInt8 crypto_aead_aes256gcm_ABYTES)]),
      Member ''page_hash'' (Array UInt8 crypto_generichash_BYTES)]"

definition page_crypto_metadata_t :: ctype where
  "page_crypto_metadata_t = Struct [page_crypto_union]"

text \<open>\<open>page_flags\<close> is a packed enum with enumerators \<open>page_flags_free = 0\<close> up to
  \<open>page_flags_free_space_bitmap = 6\<close>.\<close>

definition page_flags_t :: ctype where
  "page_flags_t = PackedEnum 6"

definition page_metadata_common_t :: ctype where
  "page_metadata_common_t = Struct
     [Member ''page_flags'' page_flags_t,
      Member ''padding'' (Array CChar 31)]"

definition FILE_HEADER_MAGIC :: string where
  "FILE_HEADER_MAGIC = ''GVRN!''"

definition file_header_t :: ctype where
  "file_header_t = Struct
     [Member ''page_flags'' page_flags_t,
      Member ''version'' UInt8,
      Member ''page_size_power_of_two'' UInt8,
      Member ''magic'' (Array UInt8 5),
      Member ''number_of_pages'' UInt64,
      Member ''last_tx_id'' UInt64,
      Member ''free_space_bitmap_start'' UInt64]"

definition page_metadata_semantic :: ctype where
  "page_metadata_semantic = Union
     [Member ''common'' page_metadata_common_t,
      Member ''file_header'' file_header_t]"

definition page_metadata_t :: ctype where
  "page_metadata_t = Struct
     [Member ''cyrpto'' page_crypto_metadata_t,
      page_metadata_semantic]"

section \<open>The operating system as seen by src/pal.c\<close>

text \<open>
  \<open>pal.c\<close> talks to the kernel through \<open>stat\<close>, \<open>fstat\<close>, \<open>mkdir\<close>, \<open>open\<close>,
  \<open>fsync\<close>, \<open>close\<close>, \<open>mmap\<close>, \<open>munmap\<close> and \<open>fallocate\<close>. The file system is shared
  with other processes, so the code can assume nothing about what a call answers. The
  model therefore leaves the kernel open: \<open>kernel w n\<close> is the kernel's answer to the
  \<open>n\<close>-th system call of the run, and every call is appended to the log \<open>calls w\<close>.
  A statement proved for every \<open>kernel\<close> holds for every behaviour of the file system.
\<close>

record stat_t =
  st_mode :: "32 word"
  st_size :: "64 word"

text \<open>\<open>S_ISDIR(m)\<close> is \<open>(m & S_IFMT) == S_IFDIR\<close>, with \<open>S_IFMT = 0170000\<close> and
  \<open>S_IFDIR = 0040000\<close> (octal).\<close>

definition S_ISDIR :: "32 word \<Rightarrow> bool" where
  "S_ISDIR m = (m AND 0xF000 = 0x4000)"

text \<open>\<open>Sys_open_rdonly p\<close> is \<open>open(p, O_RDONLY)\<close>; \<open>Sys_open_creat p\<close> is
  \<open>open(p, O_CLOEXEC | O_CREAT | O_RDWR, S_IRUSR | S_IWUSR)\<close>; \<open>Sys_mkdir p\<close> is
  \<open>mkdir(p, S_IRWXU)\<close>; \<open>Sys_mmap d n\<close> is
  \<open>mmap(0, n, PROT_READ | PROT_WRITE, MAP_SHARED, d, 0)\<close>; \<open>Sys_fallocate d n\<close> is
  \<open>fallocate(d, 0, 0, n)\<close>.\<close>

datatype syscall =
    Sys_stat string
  | Sys_fstat int
  | Sys_mkdir string
  | Sys_open_rdonly string
  | Sys_open_creat string
  | Sys_fsync int
  | Sys_close int
  | Sys_mmap int u64
  | Sys_munmap u64 u64
  | Sys_fallocate int u64

text \<open>An answer of the kernel: the value the call returns, the \<open>errno\<close> it stores when
  the call fails, the buffer \<open>stat\<close>/\<open>fstat\<close> fill in when they succeed, and the pointer
  \<open>mmap\<close> returns.\<close>

record answer =
  ret :: int
  err :: int
  stat_out :: stat_t
  ptr :: u64

text \<open>
  Modelled from the spec: \<open>push_error\<close> and \<open>mark_error\<close> are declared in \<open>errors.h\<close>,
  which is not among the sources. The spec says that every operation reports failure
  "with an associated OS error code attached to a process-wide error context". The error
  context is modelled as the list of reports made so far, oldest first: \<open>Pushed code fmt\<close>
  for \<open>push_error(code, fmt, ...)\<close> (the format string stands for the message, its
  arguments are not recorded) and \<open>Marked\<close> for \<open>mark_error()\<close>.
\<close>

datatype report = Pushed int string | Marked

text \<open>The state of a run: the kernel, the log of system calls, \<open>errno\<close>, the error
  context, and \<open>uninit\<close>, the contents found in a \<open>struct stat\<close> local that has been
  declared but never written (indeterminate in C, fixed for the run here).\<close>

record world =
  kernel :: "nat \<Rightarrow> answer"
  calls :: "syscall list"
  errno :: int
  errors :: "report list"
  uninit :: stat_t

definition MAP_FAILED :: u64 where
  "MAP_FAILED = - 1"

fun failed :: "syscall \<Rightarrow> answer \<Rightarrow> bool" where
  "failed (Sys_mmap d n) a = (ptr a = MAP_FAILED)"
| "failed c a = (ret a = - 1)"

text \<open>One system call: take the kernel's next answer, log the call, and store \<open>errno\<close>
  if the call failed.\<close>

definition sys :: "syscall \<Rightarrow> world \<Rightarrow> answer \<times> world" where
  "sys c w =
     (let a = kernel w (length (calls w))
      in (a, w\<lparr>calls := calls w @ [c],
                errno := (if failed c a then err a else errno w)\<rparr>))"

text \<open>Modelled from the spec: \<open>push_error\<close> attaches an error code and a message to the
  error context, \<open>mark_error\<close> adds a mark to it; neither changes anything else.\<close>

definition push_error :: "int \<Rightarrow> string \<Rightarrow> world \<Rightarrow> world" where
  "push_error code format w = w\<lparr>errors := errors w @ [Pushed code format]\<rparr>"

definition mark_error :: "world \<Rightarrow> world" where
  "mark_error w = w\<lparr>errors := errors w @ [Marked]\<rparr>"

text \<open>Linux values of the \<open>errno\<close> constants.\<close>

definition ENOENT :: int where "ENOENT = 2"
definition EIO :: int where "EIO = 5"
definition EEXIST :: int where "EEXIST = 17"
definition ENOTDIR :: int where "ENOTDIR = 20"
definition EISDIR :: int where "EISDIR = 21"
definition EINVAL :: int where "EINVAL = 22"
definition EINTR :: int where "EINTR = 4"

subsection \<open>C strings\<close>

text \<open>
  A \<open>char*\<close> is a position in a list of bytes; the string it denotes runs up to the next
  NUL byte. The buffers \<open>pal.c\<close> scans are those \<open>set_file_name\<close> has filled, which end
  in a NUL, so no scan leaves the buffer; the end of the list stands for that NUL where a
  list holds an argument string without its terminator.
\<close>

definition NUL :: char where
  "NUL = CHR 0x00"

definition c_str :: "char list \<Rightarrow> nat \<Rightarrow> string" where
  "c_str mem p = takeWhile (\<lambda>c. c \<noteq> NUL) (drop p mem)"

definition strlen :: "char list \<Rightarrow> nat" where
  "strlen s = length (c_str s 0)"

text \<open>\<open>strchr\<close> gives the position of the first occurrence of \<open>c\<close> in the string at
  \<open>p\<close>, \<open>strrchr\<close> the position of the last occurrence in the string at 0; \<open>None\<close> is the
  null pointer.\<close>

definition strchr :: "char list \<Rightarrow> nat \<Rightarrow> char \<Rightarrow> nat option" where
  "strchr mem p c =
     (let s = c_str mem p
      in if c \<in> set s then Some (p + length (takeWhile (\<lambda>x. x \<noteq> c) s)) else None)"

definition strrchr :: "char list \<Rightarrow> char \<Rightarrow> nat option" where
  "strrchr mem c =
     (let s = c_str mem 0
      in if c \<in> set s
         then Some (length s - 1 - length (takeWhile (\<lambda>x. x \<noteq> c) (rev s)))
         else None)"

section \<open>File handles and file operations (src/pal.c)\<close>

text \<open>
  A file handle is \<open>struct pal_file_handle { int fd; }\<close> followed, in the same
  allocation, by the bytes of the file name. \<open>name_buf\<close> is that tail of the allocation;
  its length is what the caller allocated beyond \<open>sizeof(file_handle_t)\<close>, which is the
  size of one \<open>int\<close>.
\<close>

record file_handle_t =
  fd :: int
  name_buf :: "char list"

definition sizeof_file_handle_t :: nat where
  "sizeof_file_handle_t = 4"

definition get_file_name :: "file_handle_t \<Rightarrow> string" where
  "get_file_name handle = c_str (name_buf handle) 0"

text \<open>The arguments may be null pointers (\<open>None\<close>). The result is a \<open>size_t\<close>, 64 bits
  wide, so the sum is taken modulo \<open>2 ^ 64\<close>.\<close>

definition get_file_handle_size :: "string option \<Rightarrow> string option \<Rightarrow> nat" where
  "get_file_handle_size path name =
     (case path of
        None \<Rightarrow> 0
      | Some p \<Rightarrow>
          (case name of
             None \<Rightarrow> 0
           | Some n \<Rightarrow>
               let path_len = strlen p; name_len = strlen n
               in if path_len = 0 \<or> name_len = 0 then 0
                  else (sizeof_file_handle_t + path_len + 1 + name_len + 1) mod 2 ^ 64))"

text \<open>\<open>set_file_name\<close> copies \<open>path\<close>, a slash, \<open>name\<close> and the terminating NUL to the
  start of the name buffer. Writing more bytes than the buffer holds is undefined
  behaviour: \<open>None\<close>. The pointer it returns is the start of the buffer.\<close>

definition set_file_name ::
  "string \<Rightarrow> string \<Rightarrow> file_handle_t \<Rightarrow> file_handle_t option" where
  "set_file_name path name handle =
     (let path_len = strlen path; name_len = strlen name;
          bytes = take path_len path @ [CHR ''/''] @ take name_len name @ [NUL]
      in if length bytes \<le> length (name_buf handle)
         then Some (handle\<lparr>name_buf := bytes @ drop (length bytes) (name_buf handle)\<rparr>)
         else None)"

text \<open>\<open>fsync_parent_directory\<close> overwrites the last slash with NUL for the duration of
  the \<open>open\<close> call and then puts the slash back, so the buffer is the same afterwards.\<close>

definition fsync_parent_directory :: "char list \<Rightarrow> world \<Rightarrow> bool \<times> world" where
  "fsync_parent_directory file w =
     (let (d, w1) = (case strrchr file CHR ''/'' of
                       None \<Rightarrow> sys (Sys_open_rdonly ''.'') w
                     | Some last_sep \<Rightarrow>
                         sys (Sys_open_rdonly (c_str (file[last_sep := NUL]) 0)) w)
      in if ret d = - 1
         then (False, push_error (errno w1) ''Unable to open parent directory of: %s'' w1)
         else
           let (s, w2) = sys (Sys_fsync (ret d)) w1;
               (res, w3) =
                 (if ret s \<noteq> 0
                  then (False,
                        push_error (errno w2) ''Failed to fsync parent directory of: %s'' w2)
                  else (True, w2));
               (c, w4) = sys (Sys_close (ret d)) w3
           in if ret c \<noteq> 0
              then (False,
                    push_error (errno w4)
                      ''Failed to close (after fsync) parent directory of: %s'' w4)
              else (res, w4))"

text \<open>What a call of a \<open>bool\<close> function yields: \<open>Ret b\<close> when it returns \<open>b\<close>,
  \<open>Undefined\<close> when the C program has no defined value there (control reaches the end
  of \<open>ensure_file_path\<close> without a \<open>return\<close>, or \<open>set_file_name\<close> writes past the
  buffer).\<close>

datatype result = Ret bool | Undefined

lemma strchr_bounds: "strchr mem p c = Some i \<Longrightarrow> p \<le> i \<and> i < length mem"
proof -
  assume a: "strchr mem p c = Some i"
  let ?s = "c_str mem p"
  let ?t = "takeWhile (\<lambda>x. x \<noteq> c) ?s"
  from a have mem: "c \<in> set ?s" and i: "i = p + length ?t"
    by (auto simp add: strchr_def Let_def split: if_splits)
  from mem have "?t \<noteq> ?s"
    by (auto simp add: takeWhile_eq_all_conv)
  moreover have "?t = take (length ?t) ?s"
    by (rule takeWhile_eq_take)
  moreover have "length ?t \<le> length ?s"
    by (rule length_takeWhile_le)
  ultimately have "length ?t < length ?s"
    by (metis le_neq_implies_less take_all_iff order_refl)
  moreover have "length ?s \<le> length mem - p"
    unfolding c_str_def by (metis length_drop length_takeWhile_le)
  ultimately show ?thesis using i by simp
qed

text \<open>
  The \<open>while\<close> loop of \<open>ensure_file_path\<close>. \<open>cur\<close> is a position in \<open>file\<close>, \<open>st\<close> the
  current contents of the local \<open>struct stat\<close>. \<open>stat\<close> writes \<open>st\<close> only when it
  succeeds. The separator is overwritten with NUL before the \<open>stat\<close> call; the two
  error exits write the slash back, the path that goes on to the next iteration does not.
  When \<open>*cur\<close> is NUL the loop ends and control reaches the end of the function, which
  has no \<open>return\<close> statement there. The source initialises \<open>cur\<close> from \<open>path\<close>, a name
  that is not declared in the function; the model reads it as the parameter \<open>file\<close>.
\<close>

function ensure_file_path_loop ::
  "char list \<Rightarrow> nat \<Rightarrow> stat_t \<Rightarrow> world \<Rightarrow> result \<times> char list \<times> world" where
  "ensure_file_path_loop file cur st w =
     (if cur < length file \<and> file ! cur \<noteq> NUL then
        (case strchr file cur CHR ''/'' of
           None \<Rightarrow> (Ret True, file, w)
         | Some next_sep \<Rightarrow>
             let file1 = file[next_sep := NUL];
                 (a, w1) = sys (Sys_stat (c_str file1 0)) w;
                 st1 = (if ret a = 0 then stat_out a else st)
             in if ret a \<noteq> 0 then
                  (if \<not> S_ISDIR (st_mode st1)
                   then (Ret False, file1[next_sep := CHR ''/''],
                         push_error ENOTDIR
                           ''The path '%s' is a file, but expected a directory'' w1)
                   else ensure_file_path_loop file1 (next_sep + 1) st1 w1)
                else
                  let (m, w2) = sys (Sys_mkdir (c_str file1 0)) w1
                  in if ret m = - 1 \<and> errno w2 \<noteq> EEXIST
                     then (Ret False, file1[next_sep := CHR ''/''],
                           push_error (errno w2) ''Unable to create directory: %s'' w2)
                     else
                       let (ok, w3) = fsync_parent_directory file1 w2
                       in if \<not> ok
                          then (Ret False, file1[next_sep := CHR ''/''], mark_error w3)
                          else ensure_file_path_loop file1 (next_sep + 1) st1 w3)
      else (Undefined, file, w))"
  by pat_completeness auto
termination
  by (relation "measure (\<lambda>(file, cur, st, w). length file - cur)")
     (auto dest: strchr_bounds)

declare ensure_file_path_loop.simps [simp del]

definition ensure_file_path :: "char list \<Rightarrow> world \<Rightarrow> result \<times> char list \<times> world" where
  "ensure_file_path file w =
     (let (a, w1) = sys (Sys_stat (c_str file 0)) w;
          st = (if ret a = 0 then stat_out a else uninit w)
      in if ret a \<noteq> 0 then
           (if S_ISDIR (st_mode st)
            then (Ret False, file,
                  push_error EISDIR ''The path '%s' is a directory, expected a file'' w1)
            else (Ret True, file, w1))
         else ensure_file_path_loop file 0 st w1)"

text \<open>The part of \<open>create_file\<close> after the \<open>if (isNew) ... else ...\<close> statement: open the
  file and, if \<open>isNew\<close>, fsync its parent directory. \<open>!close(fd)\<close> holds when \<open>close\<close>
  returns 0.\<close>

definition create_file_open ::
  "bool \<Rightarrow> file_handle_t \<Rightarrow> world \<Rightarrow> result \<times> file_handle_t \<times> world" where
  "create_file_open isNew handle w =
     (let (d, w1) = sys (Sys_open_creat (get_file_name handle)) w
      in if ret d = - 1
         then (Ret False, handle, push_error (errno w1) ''Unable to open file %s'' w1)
         else if isNew then
           (let (ok, w2) = fsync_parent_directory (name_buf handle) w1
            in if \<not> ok then
                 (let w3 = push_error EIO
                        ''Unable to fsync parent directory after creating new file: %s'' w2;
                      (c, w4) = sys (Sys_close (ret d)) w3
                  in (Ret False, handle,
                      if ret c = 0
                      then push_error (errno w4) ''Unable to close file (%i) %s'' w4
                      else w4))
               else (Ret True, handle\<lparr>fd := ret d\<rparr>, w2))
         else (Ret True, handle\<lparr>fd := ret d\<rparr>, w1))"

text \<open>\<open>create_file\<close>. \<open>stat\<close> returns 0 when the file exists, so \<open>isNew = !stat(...)\<close>
  holds exactly when \<open>stat\<close> returned 0. \<open>ensure_file_path\<close> works on the handle's own
  name buffer.\<close>

definition create_file ::
  "string \<Rightarrow> string \<Rightarrow> file_handle_t \<Rightarrow> world \<Rightarrow> result \<times> file_handle_t \<times> world" where
  "create_file path name handle w =
     (case set_file_name path name handle of
        None \<Rightarrow> (Undefined, handle, w)
      | Some h \<Rightarrow>
          let (a, w1) = sys (Sys_stat (get_file_name h)) w;
              st = (if ret a = 0 then stat_out a else uninit w);
              isNew = (ret a = 0)
          in if isNew then
               (case ensure_file_path (name_buf h) w1 of
                  (Undefined, file, w2) \<Rightarrow> (Undefined, h\<lparr>name_buf := file\<rparr>, w2)
                | (Ret ok, file, w2) \<Rightarrow>
                    if \<not> ok then (Ret False, h\<lparr>name_buf := file\<rparr>, mark_error w2)
                    else create_file_open isNew (h\<lparr>name_buf := file\<rparr>) w2)
             else if S_ISDIR (st_mode st)
               then (Ret False, h,
                     push_error EISDIR ''The path '%s' is a directory, expected a file'' w1)
               else create_file_open isNew h w1)"

text \<open>\<open>get_file_size\<close>, \<open>map_file\<close>: the second component of the result is the value of
  the out-parameter (\<open>*size\<close>, \<open>*address\<close>) on return; \<open>size_out\<close> and \<open>address\<close> are its
  value on entry.\<close>

definition get_file_size ::
  "file_handle_t \<Rightarrow> u64 \<Rightarrow> world \<Rightarrow> bool \<times> u64 \<times> world" where
  "get_file_size handle size_out w =
     (let (a, w1) = sys (Sys_fstat (fd handle)) w;
          st = (if ret a = 0 then stat_out a else uninit w)
      in if ret a \<noteq> - 1 then (True, st_size st, w1)
         else (False, size_out, push_error (errno w1) ''Unable to stat(%s)'' w1))"

definition map_file ::
  "file_handle_t \<Rightarrow> u64 \<Rightarrow> u64 \<Rightarrow> world \<Rightarrow> bool \<times> u64 \<times> world" where
  "map_file handle size_arg address w =
     (let (a, w1) = sys (Sys_mmap (fd handle) size_arg) w; addr = ptr a
      in if addr = MAP_FAILED
         then (False, 0,
               push_error (errno w1) ''Unable to map file %s with size %lu'' w1)
         else (True, addr, w1))"

definition unmap_file :: "u64 \<Rightarrow> u64 \<Rightarrow> world \<Rightarrow> bool \<times> world" where
  "unmap_file address size_arg w =
     (let (a, w1) = sys (Sys_munmap address size_arg) w
      in if ret a = - 1 then (False, push_error EINVAL ''Unable to unmap!'' w1)
         else (True, w1))"

text \<open>The handle may be a null pointer (\<open>None\<close>).\<close>

definition close_file :: "file_handle_t option \<Rightarrow> world \<Rightarrow> bool \<times> world" where
  "close_file handle w =
     (case handle of
        None \<Rightarrow> (True, w)
      | Some h \<Rightarrow>
          let (c, w1) = sys (Sys_close (fd h)) w
          in if ret c = - 1
             then (False, push_error (errno w1) ''Failed to close file %s (%i)'' w1)
             else (True, w1))"

definition ensure_file_minimum_size :: "file_handle_t \<Rightarrow> u64 \<Rightarrow> world \<Rightarrow> bool \<times> world" where
  "ensure_file_minimum_size handle minimum_size w =
     (let (a, w1) = sys (Sys_fallocate (fd handle) minimum_size) w
      in if ret a \<noteq> - 1 then (True, w1)
         else (False,
               push_error (errno w1) ''Unable to extend file to size %s to %lu'' w1))"

subsection \<open>Concrete runs\<close>

text \<open>A run is fixed by the list of the kernel's answers, in the order of the calls;
  \<open>boot\<close> is the state before the first call, with \<open>errno\<close> 0, an empty error context and
  zeroes in uninitialised memory. \<open>blank_handle n\<close> is a freshly allocated handle with
  \<open>n\<close> bytes for the name.\<close>

definition reply :: "int \<Rightarrow> int \<Rightarrow> answer" where
  "reply r e = \<lparr>ret = r, err = e, stat_out = \<lparr>st_mode = 0, st_size = 0\<rparr>, ptr = 0\<rparr>"

definition reply_stat :: "32 word \<Rightarrow> 64 word \<Rightarrow> answer" where
  "reply_stat m n = \<lparr>ret = 0, err = 0, stat_out = \<lparr>st_mode = m, st_size = n\<rparr>, ptr = 0\<rparr>"

definition reply_ptr :: "u64 \<Rightarrow> int \<Rightarrow> answer" where
  "reply_ptr a e = \<lparr>ret = 0, err = e, stat_out = \<lparr>st_mode = 0, st_size = 0\<rparr>, ptr = a\<rparr>"

definition script :: "answer list \<Rightarrow> nat \<Rightarrow> answer" where
  "script as n = (if n < length as then as ! n else reply (- 1) EIO)"

definition boot :: "answer list \<Rightarrow> world" where
  "boot as = \<lparr>kernel = script as, calls = [], errno = 0, errors = [],
              uninit = \<lparr>st_mode = 0, st_size = 0\<rparr>\<rparr>"

definition blank_handle :: "nat \<Rightarrow> file_handle_t" where
  "blank_handle n = \<lparr>fd = 0, name_buf = replicate n NUL\<rparr>"

section \<open>Properties of the bitmap primitives\<close>

lemma bit_one_shl: "bit (2 ^ n :: u64) k = (k = n \<and> n < 64)"
  by (auto simp add: bit_simps)

lemma bit_and_shl: "bit (w AND 2 ^ n :: u64) k = (bit w k \<and> k = n \<and> n < 64)"
  unfolding bit_and_iff bit_one_shl by simp

lemma bit_or_shl: "bit (w OR 2 ^ n :: u64) k = (bit w k \<or> (k = n \<and> n < 64))"
  unfolding bit_or_iff bit_one_shl by simp

lemma bit_xor_shl: "bit (w XOR 2 ^ n :: u64) k = (bit w k \<noteq> (k = n \<and> n < 64))"
  unfolding bit_xor_iff bit_one_shl by simp

lemma mask_test: "(w AND 2 ^ n \<noteq> (0::u64)) = (n < 64 \<and> bit w n)"
proof (cases "n < 64 \<and> bit w n")
  case True
  then have b: "bit (w AND 2 ^ n) n"
    unfolding bit_and_shl by simp
  have "w AND 2 ^ n \<noteq> 0"
  proof
    assume "w AND 2 ^ n = 0"
    with b show False by simp
  qed
  with True show ?thesis by blast
next
  case False
  have "w AND 2 ^ n = 0"
  proof (rule bit_eqI)
    fix k
    show "bit (w AND 2 ^ n) k = bit (0::u64) k"
      unfolding bit_and_shl using False by auto
  qed
  with False show ?thesis by blast
qed

lemma unat_div64: "unat ((p::u64) div 64) = unat p div 64"
  by (simp add: unat_div)

lemma unat_mod64: "unat ((p::u64) mod 64) = unat p mod 64"
  by (simp add: unat_mod)

lemma pos_eqI:
  "unat (p::u64) div 64 = unat q div 64 \<Longrightarrow> unat p mod 64 = unat q mod 64 \<Longrightarrow> p = q"
  by (metis div_mult_mod_eq word_unat_eq_iff)

lemma is_bit_set_iff:
  "unat pos div 64 < length buffer \<Longrightarrow>
   is_bit_set buffer pos = Some (bit (buffer ! (unat pos div 64)) (unat pos mod 64))"
  by (simp add: is_bit_set_def unat_div64 unat_mod64 mask_test)

lemma set_bit_buf_Some:
  "unat pos div 64 < length buffer \<Longrightarrow>
   set_bit_buf buffer pos =
     Some (buffer[unat pos div 64 :=
             (buffer ! (unat pos div 64)) OR push_bit (unat pos mod 64) 1])"
  by (simp add: set_bit_buf_def unat_div64 unat_mod64)

lemma clear_bit_Some:
  "unat pos div 64 < length buffer \<Longrightarrow>
   clear_bit buffer pos =
     Some (buffer[unat pos div 64 :=
             (buffer ! (unat pos div 64)) XOR push_bit (unat pos mod 64) 1])"
  by (simp add: clear_bit_def unat_div64 unat_mod64)

lemma set_bit_buf_query:
  assumes "unat pos div 64 < length buffer" and "unat q div 64 < length buffer"
    and "set_bit_buf buffer pos = Some b"
  shows "is_bit_set b q = Some (q = pos \<or> bit (buffer ! (unat q div 64)) (unat q mod 64))"
proof -
  let ?i = "unat pos div 64" and ?j = "unat q div 64"
  have b: "b = buffer[?i := (buffer ! ?i) OR push_bit (unat pos mod 64) 1]"
    using assms(1,3) by (simp add: set_bit_buf_Some)
  have len: "?j < length b"
    using assms(2) b by simp
  show ?thesis
  proof (cases "?j = ?i")
    case True
    have "(unat q mod 64 = unat pos mod 64) = (q = pos)"
      using True pos_eqI by blast
    then show ?thesis
      using True assms(1) len b by (auto simp add: is_bit_set_iff bit_or_shl)
  next
    case False
    then have "q \<noteq> pos" by auto
    then show ?thesis
      using False assms(2) len b by (simp add: is_bit_set_iff)
  qed
qed

text \<open>
  C4. For a position inside the buffer, \<open>set_bit\<close> makes \<open>is_bit_set\<close> at that position
  true; it writes only word \<open>pos / 64\<close> and changes at most bit \<open>pos % 64\<close> of that word,
  so \<open>is_bit_set\<close> at every other position inside the buffer answers as before; and
  setting the same position a second time leaves the buffer as it is.
\<close>

theorem set_bit_sets_exactly_one_bit:
  assumes "unat pos div 64 < length buffer"
  shows "\<exists>b. set_bit_buf buffer pos = Some b
           \<and> is_bit_set b pos = Some True
           \<and> length b = length buffer
           \<and> (\<forall>i. i < length buffer \<and> i \<noteq> unat pos div 64 \<longrightarrow> b ! i = buffer ! i)
           \<and> (\<forall>k. k \<noteq> unat pos mod 64 \<longrightarrow>
                  bit (b ! (unat pos div 64)) k = bit (buffer ! (unat pos div 64)) k)
           \<and> (\<forall>q. q \<noteq> pos \<and> unat q div 64 < length buffer \<longrightarrow>
                  is_bit_set b q = is_bit_set buffer q)
           \<and> set_bit_buf b pos = Some b"
proof -
  let ?i = "unat pos div 64"
  let ?b = "buffer[?i := (buffer ! ?i) OR push_bit (unat pos mod 64) 1]"
  have s: "set_bit_buf buffer pos = Some ?b"
    using assms by (rule set_bit_buf_Some)
  have len: "length ?b = length buffer" by simp
  have q: "is_bit_set ?b pos = Some True"
    using set_bit_buf_query [OF assms assms s] by simp
  have others: "\<forall>i. i < length buffer \<and> i \<noteq> ?i \<longrightarrow> ?b ! i = buffer ! i"
    by simp
  have bits: "\<forall>k. k \<noteq> unat pos mod 64 \<longrightarrow> bit (?b ! ?i) k = bit (buffer ! ?i) k"
    using assms by (simp add: bit_or_shl)
  have queries: "\<forall>q. q \<noteq> pos \<and> unat q div 64 < length buffer \<longrightarrow>
                   is_bit_set ?b q = is_bit_set buffer q"
    using set_bit_buf_query [OF assms _ s] by (simp add: is_bit_set_iff)
  have "(?b ! ?i) OR push_bit (unat pos mod 64) 1 = ?b ! ?i"
    using assms by (simp add: ac_simps)
  then have idem: "set_bit_buf ?b pos = Some ?b"
    using assms by (simp add: set_bit_buf_Some)
  from s q len others bits queries idem show ?thesis by blast
qed

theorem set_bit_sets_exactly_one_bit_witness:
  "unat (70::u64) div 64 < length [5, 0::u64]
   \<and> set_bit_buf [5, 0] 70 = Some [5, 64]
   \<and> is_bit_set [5, 64] 70 = Some True
   \<and> is_bit_set [5, 64] 1 = is_bit_set [5, 0] 1
   \<and> is_bit_set [5, 64] 71 = is_bit_set [5, 0] 71
   \<and> set_bit_buf [5, 64] 70 = Some [5, 64]"
proof -
  have h: "unat (70::u64) div 64 < length [5, 0::u64]" by simp
  have v: "set_bit_buf [5, 0] 70 = Some [5, 64]"
    by (simp add: set_bit_buf_def)
  show ?thesis
    using h v set_bit_sets_exactly_one_bit [OF h] by auto
qed

text \<open>
  C3. \<open>clear_bit\<close> applies \<open>^=\<close> (exclusive or) with the mask, so it flips the bit: a
  bit that was set becomes clear, and a bit that was already clear becomes set. On the
  one-word buffer \<open>{0}\<close>, \<open>clear_bit(buffer, 0)\<close> leaves the word \<open>1\<close> and \<open>is_bit_set\<close>
  then answers true.
\<close>

theorem clear_bit_sets_a_clear_bit:
  "is_bit_set [0] 0 = Some False
   \<and> clear_bit [0] 0 = Some [1]
   \<and> is_bit_set [1] 0 = Some True"
  by (simp add: clear_bit_def is_bit_set_def)

lemma clear_bit_flips:
  assumes "unat pos div 64 < length buffer"
  shows "\<exists>b. clear_bit buffer pos = Some b
           \<and> is_bit_set b pos
               = Some (\<not> bit (buffer ! (unat pos div 64)) (unat pos mod 64))"
  using assms by (simp add: clear_bit_Some is_bit_set_iff bit_xor_shl)

section \<open>Sizes and offsets of the on-disk records\<close>

lemmas layout_defs =
  sizeof_def align_up_def page_metadata_t_def page_metadata_semantic_def
  page_metadata_common_t_def page_crypto_metadata_t_def page_crypto_union_def
  file_header_t_def page_flags_t_def
  crypto_aead_aes256gcm_NPUBBYTES_def crypto_aead_aes256gcm_ABYTES_def
  crypto_generichash_BYTES_def

text \<open>
  C6. The page metadata record is 64 bytes: member \<open>cyrpto\<close> of 32 bytes at offset 0 (a
  union of the AES-GCM nonce and tag, 12 + 16 = 28 bytes, with the 32-byte page hash),
  followed at offset 32 by a 32-byte union of the common flags record and the file
  header. These are the sizes the two \<open>_Static_assert\<close>s of \<open>db.h\<close> demand.
\<close>

theorem page_metadata_is_64_bytes:
  "sizeof page_metadata_t = 64
   \<and> members page_metadata_t = [(''cyrpto'', 0, 32), ([], 32, 32)]
   \<and> sizeof page_crypto_metadata_t = 32
   \<and> members page_crypto_metadata_t = [([], 0, 32)]
   \<and> members page_crypto_union = [(''aes_gcm'', 0, 28), (''page_hash'', 0, 32)]
   \<and> sizeof page_metadata_semantic = 32
   \<and> members page_metadata_semantic = [(''common'', 0, 32), (''file_header'', 0, 32)]"
  by (simp add: layout_defs)

text \<open>
  C5. The file header record holds the five magic bytes (as many as \<open>"GVRN!"\<close> has
  characters), a one-byte version, a one-byte page-size power of two, and three 8-byte
  fields: number of pages, last transaction id, start of the free-space bitmap. It begins
  with the one-byte page flags it shares with the common record, is 32 bytes long, and
  lies at offset 32 of the 64-byte page metadata record, so it ends inside that record.
\<close>

theorem file_header_layout:
  "FILE_HEADER_MAGIC = ''GVRN!''
   \<and> members file_header_t =
       [(''page_flags'', 0, 1), (''version'', 1, 1), (''page_size_power_of_two'', 2, 1),
        (''magic'', 3, length FILE_HEADER_MAGIC), (''number_of_pages'', 8, 8),
        (''last_tx_id'', 16, 8), (''free_space_bitmap_start'', 24, 8)]
   \<and> sizeof file_header_t = 32
   \<and> members page_metadata_semantic
       = [(''common'', 0, 32), (''file_header'', 0, sizeof file_header_t)]
   \<and> members page_metadata_t
       = [(''cyrpto'', 0, 32), ([], 32, sizeof page_metadata_semantic)]
   \<and> 32 + sizeof file_header_t \<le> sizeof page_metadata_t
   \<and> sizeof page_metadata_t = 64"
  by (simp add: layout_defs FILE_HEADER_MAGIC_def)

section \<open>Single-call file operations\<close>

lemmas run_defs =
  boot_def script_def reply_def reply_stat_def blank_handle_def
  sys_def push_error_def mark_error_def Let_def
  EIO_def EEXIST_def ENOTDIR_def EISDIR_def

lemma sys_world:
  "sys c w = (a, w1) \<Longrightarrow>
     a = kernel w (length (calls w)) \<and> kernel w1 = kernel w \<and> calls w1 = calls w @ [c]
     \<and> errors w1 = errors w \<and> uninit w1 = uninit w"
  by (auto simp add: sys_def Let_def)

text \<open>
  C7. \<open>get_file_size\<close> makes exactly one system call, \<open>fstat\<close> on the descriptor of
  the handle. When that \<open>fstat\<close> succeeds (returns 0), \<open>get_file_size\<close> returns true with
  \<open>*size\<close> set to the size \<open>fstat\<close> reported for that descriptor, and reports no error.
  When it fails (returns -1), \<open>get_file_size\<close> returns false, leaves \<open>*size\<close> as it was,
  and adds to the error context one error carrying the \<open>errno\<close> the failed call stored.
\<close>

theorem get_file_size_result:
  "case get_file_size handle size_out w of
     (ok, size', w') \<Rightarrow>
       calls w' = calls w @ [Sys_fstat (fd handle)]
     \<and> kernel w' = kernel w
     \<and> (ret (kernel w (length (calls w))) = 0 \<longrightarrow>
          ok \<and> size' = st_size (stat_out (kernel w (length (calls w))))
          \<and> errors w' = errors w \<and> errno w' = errno w)
     \<and> (ret (kernel w (length (calls w))) = - 1 \<longrightarrow>
          \<not> ok \<and> size' = size_out
          \<and> errno w' = err (kernel w (length (calls w)))
          \<and> errors w' = errors w @ [Pushed (err (kernel w (length (calls w))))
                                        ''Unable to stat(%s)''])"
  by (simp add: get_file_size_def sys_def Let_def push_error_def)

theorem get_file_size_result_witness:
  "ret (kernel (boot [reply_stat 0x81A4 8192]) (length (calls (boot [reply_stat 0x81A4 8192])))) = 0
   \<and> (case get_file_size (blank_handle 4\<lparr>fd := 3\<rparr>) 7 (boot [reply_stat 0x81A4 8192]) of
        (ok, size', w') \<Rightarrow>
          ok \<and> size' = 8192 \<and> calls w' = [Sys_fstat 3] \<and> errors w' = [])
   \<and> ret (kernel (boot [reply (- 1) EIO]) (length (calls (boot [reply (- 1) EIO])))) = - 1
   \<and> (case get_file_size (blank_handle 4\<lparr>fd := 3\<rparr>) 7 (boot [reply (- 1) EIO]) of
        (ok, size', w') \<Rightarrow>
          \<not> ok \<and> size' = 7 \<and> calls w' = [Sys_fstat 3] \<and> errno w' = EIO
          \<and> errors w' = [Pushed EIO ''Unable to stat(%s)''])"
  using get_file_size_result
          [where handle = "blank_handle 4\<lparr>fd := 3\<rparr>" and size_out = 7
             and w = "boot [reply_stat 0x81A4 8192]"]
        get_file_size_result
          [where handle = "blank_handle 4\<lparr>fd := 3\<rparr>" and size_out = 7
             and w = "boot [reply (- 1) EIO]"]
  by (simp add: run_defs split: prod.splits)

text \<open>
  C8. \<open>close_file\<close> on a null handle returns true and does nothing: no system call is
  made and no error is reported, the state is the one it was called in.
\<close>

theorem close_file_null: "close_file None w = (True, w)"
  by (simp add: close_file_def)

text \<open>
  C9. \<open>map_file\<close> makes exactly one system call, \<open>mmap\<close> of \<open>size\<close> bytes of the
  handle's descriptor. It returns false exactly when that \<open>mmap\<close> returns \<open>MAP_FAILED\<close>.
  Then \<open>*address\<close> is 0 on return, whatever it held before, and one error carrying the
  \<open>errno\<close> of the failed call is reported. Otherwise it returns true and \<open>*address\<close> is
  the address that \<open>mmap\<close> returned for that descriptor and size.
\<close>

theorem map_file_result:
  "case map_file handle size_arg address w of
     (ok, address', w') \<Rightarrow>
       calls w' = calls w @ [Sys_mmap (fd handle) size_arg]
     \<and> kernel w' = kernel w
     \<and> ok = (ptr (kernel w (length (calls w))) \<noteq> MAP_FAILED)
     \<and> (\<not> ok \<longrightarrow>
          address' = 0
          \<and> errno w' = err (kernel w (length (calls w)))
          \<and> errors w' = errors w @ [Pushed (err (kernel w (length (calls w))))
                                        ''Unable to map file %s with size %lu''])
     \<and> (ok \<longrightarrow>
          address' = ptr (kernel w (length (calls w)))
          \<and> errors w' = errors w \<and> errno w' = errno w)"
  by (simp add: map_file_def sys_def Let_def push_error_def)

theorem map_file_result_witness:
  "(case map_file (blank_handle 4\<lparr>fd := 3\<rparr>) 8192 77 (boot [reply_ptr MAP_FAILED 12]) of
      (ok, address', w') \<Rightarrow>
         \<not> ok \<and> address' = 0 \<and> calls w' = [Sys_mmap 3 8192] \<and> errno w' = 12
         \<and> errors w' = [Pushed 12 ''Unable to map file %s with size %lu''])
   \<and> (case map_file (blank_handle 4\<lparr>fd := 3\<rparr>) 8192 77
               (boot [reply_ptr 0x7F0000000000 0]) of
      (ok, address', w') \<Rightarrow>
         ok \<and> address' = 0x7F0000000000 \<and> calls w' = [Sys_mmap 3 8192]
         \<and> errors w' = [])"
  using map_file_result
          [where handle = "blank_handle 4\<lparr>fd := 3\<rparr>" and size_arg = 8192 and address = 77
             and w = "boot [reply_ptr MAP_FAILED 12]"]
        map_file_result
          [where handle = "blank_handle 4\<lparr>fd := 3\<rparr>" and size_arg = 8192 and address = 77
             and w = "boot [reply_ptr 0x7F0000000000 0]"]
  by (simp add: run_defs reply_ptr_def MAP_FAILED_def split: prod.splits)

section \<open>File names\<close>

lemma takeWhile_prefix:
  "\<forall>x \<in> set xs. P x \<Longrightarrow> takeWhile P (xs @ ys) = xs @ takeWhile P ys"
  by (induction xs) auto

lemma c_str_no_NUL: "NUL \<notin> set (c_str mem p)"
  unfolding c_str_def by (auto dest: set_takeWhileD)

lemma take_strlen: "take (strlen s) s = c_str s 0"
  unfolding strlen_def c_str_def by (simp add: takeWhile_eq_take [symmetric])

lemma strlen_le: "strlen s \<le> length s"
  unfolding strlen_def c_str_def by (simp add: length_takeWhile_le)

lemma min_strlen: "min (length s) (strlen s) = strlen s"
  using strlen_le [of s] by simp

lemma length_c_str0: "length (c_str s 0) = strlen s"
  by (simp add: strlen_def)

lemma c_str0_prefix: "c_str buf 0 = take (length (c_str buf 0)) buf"
  unfolding c_str_def by (simp add: takeWhile_eq_take [symmetric])

text \<open>\<open>set_file_name\<close> succeeds exactly when the buffer has room for both strings, the
  slash and the terminator; the name then read back by \<open>get_file_name\<close> is the path, a
  slash and the name.\<close>

lemma set_file_name_Some_iff:
  "(\<exists>h. set_file_name path name handle = Some h)
     = (strlen path + 1 + strlen name + 1 \<le> length (name_buf handle))"
  by (auto simp add: set_file_name_def Let_def min_strlen)

lemma set_file_name_stores_name:
  assumes "set_file_name path name handle = Some h"
  shows "get_file_name h = c_str path 0 @ ''/'' @ c_str name 0"
    and "length (name_buf h) = length (name_buf handle)"
    and "fd h = fd handle"
proof -
  let ?bytes = "c_str path 0 @ [CHR ''/''] @ c_str name 0 @ [NUL]"
  from assms
  have h: "h = handle\<lparr>name_buf := ?bytes @ drop (length ?bytes) (name_buf handle)\<rparr>"
    and len: "length ?bytes \<le> length (name_buf handle)"
    by (auto simp add: set_file_name_def Let_def take_strlen min_strlen length_c_str0
          split: if_splits)
  have "\<forall>x \<in> set (c_str path 0 @ [CHR ''/''] @ c_str name 0). x \<noteq> NUL"
    using c_str_no_NUL [of path 0] c_str_no_NUL [of name 0] by (auto simp add: NUL_def)
  then have "takeWhile (\<lambda>c. c \<noteq> NUL)
               ((c_str path 0 @ [CHR ''/''] @ c_str name 0)
                  @ (NUL # drop (length ?bytes) (name_buf handle)))
             = c_str path 0 @ [CHR ''/''] @ c_str name 0"
    by (subst takeWhile_prefix) simp_all
  then show "get_file_name h = c_str path 0 @ ''/'' @ c_str name 0"
    unfolding h get_file_name_def by (simp add: c_str_def)
  show "length (name_buf h) = length (name_buf handle)"
    unfolding h using len by simp
  show "fd h = fd handle"
    unfolding h by simp
qed

text \<open>\<open>get_file_handle_size\<close> is 0 for a null or empty argument and otherwise the size
  of the handle plus both string lengths, the slash and the terminator, as a
  \<open>size_t\<close>.\<close>

lemma get_file_handle_size_value:
  "get_file_handle_size path name =
     (case (path, name) of
        (Some p, Some n) \<Rightarrow>
          if strlen p = 0 \<or> strlen n = 0 then 0
          else (sizeof_file_handle_t + strlen p + 1 + strlen n + 1) mod 2 ^ 64
      | _ \<Rightarrow> 0)"
  by (simp add: get_file_handle_size_def Let_def split: option.splits)

lemma get_file_handle_size_fits:
  assumes "strlen p \<noteq> 0" and "strlen n \<noteq> 0"
    and "sizeof_file_handle_t + strlen p + 1 + strlen n + 1 < 2 ^ 64"
    and "length (name_buf handle) = get_file_handle_size (Some p) (Some n) - sizeof_file_handle_t"
  shows "\<exists>h. set_file_name p n handle = Some h"
  using assms by (simp add: set_file_name_Some_iff get_file_handle_size_value)

section \<open>The loop of ensure_file_path\<close>

lemma fsync_parent_directory_world:
  "fsync_parent_directory buf w = (ok, w') \<Longrightarrow>
     kernel w' = kernel w \<and> uninit w' = uninit w
     \<and> (\<exists>cs. cs \<noteq> [] \<and> calls w' = calls w @ cs)"
  by (auto simp add: fsync_parent_directory_def sys_def Let_def push_error_def
           split: option.splits if_splits prod.splits)

text \<open>One turn of the loop: it ends without a value, or returns true with the buffer
  untouched because no separator is left, or finds a separator at \<open>i\<close> and then either
  returns false with the slash written back, or goes on at \<open>i + 1\<close> with the NUL still
  at \<open>i\<close>.\<close>

lemma loop_cases:
  assumes "ensure_file_path_loop buf cur st w = (r, buf', w')"
  shows "(r = Undefined \<and> buf' = buf)
       \<or> (r = Ret True \<and> buf' = buf \<and> strchr buf cur CHR ''/'' = None)
       \<or> (\<exists>i. strchr buf cur CHR ''/'' = Some i
             \<and> ((r = Ret False \<and> buf' = buf[i := NUL, i := CHR ''/''])
                \<or> (\<exists>st1 w1. ensure_file_path_loop (buf[i := NUL]) (i + 1) st1 w1
                               = (r, buf', w'))))"
  using assms
  by (subst (asm) ensure_file_path_loop.simps)
     (auto simp add: Let_def split: if_splits option.splits prod.splits)

text \<open>The loop never writes before \<open>cur\<close> and never changes the length of the buffer.\<close>

lemma loop_keeps_prefix:
  "ensure_file_path_loop buf cur st w = (r, buf', w') \<Longrightarrow>
     take cur buf' = take cur buf \<and> length buf' = length buf"
proof (induction "length buf - cur" arbitrary: buf cur st w rule: less_induct)
  case less
  from loop_cases [OF less.prems]
  consider "buf' = buf"
    | i where "strchr buf cur CHR ''/'' = Some i" "buf' = buf[i := NUL, i := CHR ''/'']"
    | i st1 w1 where "strchr buf cur CHR ''/'' = Some i"
        "ensure_file_path_loop (buf[i := NUL]) (i + 1) st1 w1 = (r, buf', w')"
    by blast
  then show ?case
  proof cases
    case 1
    then show ?thesis by simp
  next
    case 2
    then have "cur \<le> i" using strchr_bounds by blast
    with 2 show ?thesis by simp
  next
    case 3
    then have bounds: "cur \<le> i" "i < length buf"
      using strchr_bounds by blast+
    then have "length (buf[i := NUL]) - (i + 1) < length buf - cur"
      by simp
    from less.hyps [OF this 3(2)]
    have ih: "take (i + 1) buf' = take (i + 1) (buf[i := NUL])" "length buf' = length buf"
      by simp_all
    have "take cur buf' = take cur (take (i + 1) buf')"
      using bounds by (simp add: min_def)
    also have "\<dots> = take cur (take (i + 1) (buf[i := NUL]))"
      using ih by simp
    also have "\<dots> = take cur buf"
      using bounds by (simp add: min_def)
    finally show ?thesis using ih by simp
  qed
qed

text \<open>When the loop, started at the beginning of a name that contains a slash, returns
  true, the name left in the buffer is cut at its first slash.\<close>

lemma loop_true_truncates:
  assumes run: "ensure_file_path_loop buf 0 st w = (Ret True, buf', w')"
    and slash: "CHR ''/'' \<in> set (c_str buf 0)"
  shows "c_str buf' 0 = takeWhile (\<lambda>x. x \<noteq> CHR ''/'') (c_str buf 0)"
proof -
  let ?s = "c_str buf 0"
  let ?t = "takeWhile (\<lambda>x. x \<noteq> CHR ''/'') ?s"
  let ?i = "length ?t"
  have find: "strchr buf 0 CHR ''/'' = Some ?i"
    using slash by (simp add: strchr_def)
  from loop_cases [OF run] find
  obtain st1 w1 where rec:
    "ensure_file_path_loop (buf[?i := NUL]) (?i + 1) st1 w1 = (Ret True, buf', w')"
    by auto
  have i_len: "?i < length buf"
    using strchr_bounds [OF find] by simp
  from loop_keeps_prefix [OF rec]
  have p: "take (?i + 1) buf' = take (?i + 1) (buf[?i := NUL])"
    by simp
  have t_take: "?t = take ?i ?s"
    by (rule takeWhile_eq_take)
  have "?i \<le> length ?s"
    by (rule length_takeWhile_le)
  then have "take ?i ?s = take ?i buf"
    by (subst c_str0_prefix) (simp add: min_def)
  with t_take have t_buf: "?t = take ?i buf" by simp
  have "take (?i + 1) (buf[?i := NUL]) = ?t @ [NUL]"
    using i_len t_buf by (simp add: take_Suc_conv_app_nth)
  with p have "take (?i + 1) buf' = ?t @ [NUL]" by simp
  then have buf': "buf' = (?t @ [NUL]) @ drop (?i + 1) buf'"
    by (metis append_take_drop_id)
  have "\<forall>x \<in> set ?t. x \<noteq> NUL"
    using c_str_no_NUL [of buf 0] by (auto dest: set_takeWhileD)
  then have "takeWhile (\<lambda>c. c \<noteq> NUL) (?t @ (NUL # drop (?i + 1) buf')) = ?t"
    by (subst takeWhile_prefix) simp_all
  with buf' show ?thesis
    unfolding c_str_def by (metis append.assoc append_Cons append_Nil drop0)
qed

section \<open>create_file\<close>

lemmas file_defs =
  create_file_def create_file_open_def ensure_file_path_def ensure_file_path_loop.simps
  fsync_parent_directory_def set_file_name_def get_file_name_def
  strlen_def c_str_def strchr_def strrchr_def NUL_def S_ISDIR_def

text \<open>When the first \<open>stat\<close> does not return 0 (the file is not there), \<open>isNew\<close> is false.
  A call that then returns true has made two system calls, the \<open>stat\<close> and the \<open>open\<close>
  that creates the file; the name in the handle is the path, a slash and the name.\<close>

lemma create_file_not_found:
  assumes run: "create_file path name handle w = (Ret True, h', w')"
    and stat1: "ret (kernel w (length (calls w))) \<noteq> 0"
  shows "get_file_name h' = c_str path 0 @ ''/'' @ c_str name 0
       \<and> calls w' = calls w @ [Sys_stat (c_str path 0 @ ''/'' @ c_str name 0),
                               Sys_open_creat (c_str path 0 @ ''/'' @ c_str name 0)]
       \<and> fd h' = ret (kernel w (Suc (length (calls w))))"
proof -
  from run obtain h where h: "set_file_name path name handle = Some h"
    by (auto simp add: create_file_def split: option.splits)
  note name = set_file_name_stores_name(1) [OF h]
  obtain a w1 where a: "sys (Sys_stat (get_file_name h)) w = (a, w1)"
    by (cases "sys (Sys_stat (get_file_name h)) w")
  note aw = sys_world [OF a]
  from run h a stat1 aw have op: "create_file_open False h w1 = (Ret True, h', w')"
    by (auto simp add: create_file_def Let_def split: if_splits)
  obtain d w2 where d: "sys (Sys_open_creat (get_file_name h)) w1 = (d, w2)"
    by (cases "sys (Sys_open_creat (get_file_name h)) w1")
  note dw = sys_world [OF d]
  from op d have "h' = h\<lparr>fd := ret d\<rparr>" "w' = w2"
    by (auto simp add: create_file_open_def Let_def split: if_splits)
  with name aw dw show ?thesis
    by (simp add: get_file_name_def)
qed

text \<open>When the first \<open>stat\<close> and the \<open>stat\<close> at the start of \<open>ensure_file_path\<close> both
  return 0 (the file is there), a call that returns true leaves in the handle only the
  part of the name before its first slash.\<close>

lemma create_file_found_truncates:
  assumes run: "create_file path name handle w = (Ret True, h', w')"
    and stat1: "ret (kernel w (length (calls w))) = 0"
    and stat2: "ret (kernel w (Suc (length (calls w)))) = 0"
  shows "get_file_name h'
           = takeWhile (\<lambda>x. x \<noteq> CHR ''/'') (c_str path 0 @ ''/'' @ c_str name 0)"
proof -
  from run obtain h where h: "set_file_name path name handle = Some h"
    by (auto simp add: create_file_def split: option.splits)
  note name = set_file_name_stores_name(1) [OF h]
  obtain a w1 where a: "sys (Sys_stat (get_file_name h)) w = (a, w1)"
    by (cases "sys (Sys_stat (get_file_name h)) w")
  note aw = sys_world [OF a]
  obtain r2 buf2 w2 where e: "ensure_file_path (name_buf h) w1 = (r2, buf2, w2)"
    by (cases "ensure_file_path (name_buf h) w1")
  from run h a e stat1 aw have r2: "r2 = Ret True"
    and op: "create_file_open True (h\<lparr>name_buf := buf2\<rparr>) w2 = (Ret True, h', w')"
    by (auto simp add: create_file_def Let_def split: result.splits if_splits)
  from op have nb: "name_buf h' = buf2"
    by (auto simp add: create_file_open_def Let_def split: if_splits prod.splits)
  obtain b w1' where b: "sys (Sys_stat (c_str (name_buf h) 0)) w1 = (b, w1')"
    by (cases "sys (Sys_stat (c_str (name_buf h) 0)) w1")
  from sys_world [OF b] aw stat2 have "ret b = 0" by simp
  with e b r2
  have loop: "ensure_file_path_loop (name_buf h) 0 (stat_out b) w1' = (Ret True, buf2, w2)"
    by (simp add: ensure_file_path_def Let_def)
  have "CHR ''/'' \<in> set (c_str (name_buf h) 0)"
    using name by (simp add: get_file_name_def)
  from loop_true_truncates [OF loop this] nb name show ?thesis
    by (simp add: get_file_name_def)
qed

text \<open>Whenever the \<open>open\<close> in \<open>create_file\<close> has succeeded and \<open>create_file\<close> does not
  return true, it returns false, its last system call is the \<open>close\<close> of the descriptor,
  and what it reports last depends on that \<open>close\<close>: if \<open>close\<close> returned 0, an "Unable
  to close file" error; if \<open>close\<close> did not return 0, nothing beyond the fsync error.\<close>

lemma create_file_open_failure_after_open:
  assumes run: "create_file_open isNew handle w = (r, h', w')"
    and opened: "ret (kernel w (length (calls w))) \<noteq> - 1"
    and failed: "r \<noteq> Ret True"
  shows "r = Ret False \<and> h' = handle
     \<and> last (calls w') = Sys_close (ret (kernel w (length (calls w))))
     \<and> (ret (kernel w (length (calls w') - 1)) = 0 \<longrightarrow>
          last (errors w') = Pushed (errno w') ''Unable to close file (%i) %s'')
     \<and> (ret (kernel w (length (calls w') - 1)) \<noteq> 0 \<longrightarrow>
          last (errors w') =
            Pushed EIO ''Unable to fsync parent directory after creating new file: %s'')"
proof -
  let ?msg = "''Unable to fsync parent directory after creating new file: %s''"
  obtain d w1 where d: "sys (Sys_open_creat (get_file_name handle)) w = (d, w1)"
    by (cases "sys (Sys_open_creat (get_file_name handle)) w")
  note dw = sys_world [OF d]
  obtain ok w2 where f: "fsync_parent_directory (name_buf handle) w1 = (ok, w2)"
    by (cases "fsync_parent_directory (name_buf handle) w1")
  note fw = fsync_parent_directory_world [OF f]
  let ?w3 = "push_error EIO ?msg w2"
  obtain c w4 where c: "sys (Sys_close (ret d)) ?w3 = (c, w4)"
    by (cases "sys (Sys_close (ret d)) ?w3")
  note cw = sys_world [OF c]
  from run failed opened d f c dw have r: "r = Ret False" and h: "h' = handle"
    and w': "w' = (if ret c = 0
                   then push_error (errno w4) ''Unable to close file (%i) %s'' w4 else w4)"
    by (auto simp add: create_file_open_def Let_def split: if_splits)
  have calls: "calls w' = calls ?w3 @ [Sys_close (ret d)]"
    using w' cw by (simp add: push_error_def)
  have idx: "length (calls w') - 1 = length (calls ?w3)"
    using calls by simp
  have kc: "kernel w (length (calls w') - 1) = c"
    using cw dw fw idx by (simp add: push_error_def)
  have e4: "errors w4 = errors w2 @ [Pushed EIO ?msg]"
    using cw by (simp add: push_error_def)
  show ?thesis
    using r h calls kc e4 w' dw by (simp add: push_error_def)
qed

text \<open>
  C1. Path \<open>a\<close>, name \<open>b\<close>, in a directory where \<open>a\<close> exists and \<open>a/b\<close> does not:
  \<open>stat("a/b")\<close> fails with \<open>ENOENT\<close> and \<open>open("a/b", O_CREAT ...)\<close> creates the file
  and returns descriptor 3. \<open>create_file\<close> returns true after exactly these two system
  calls. The parent directory is neither opened nor fsynced: \<open>isNew\<close> is \<open>!stat(...)\<close>,
  which is false when \<open>stat\<close> fails, so the fsync of the parent directory is skipped for
  the very files that are new.
\<close>

theorem create_file_new_file_skips_fsync:
  "case create_file ''a'' ''b'' (blank_handle 4) (boot [reply (- 1) ENOENT, reply 3 0]) of
     (r, h, w) \<Rightarrow>
       r = Ret True \<and> fd h = 3 \<and> get_file_name h = ''a/b''
       \<and> calls w = [Sys_stat ''a/b'', Sys_open_creat ''a/b'']
       \<and> errors w = []"
  by (simp add: file_defs run_defs ENOENT_def)

text \<open>With the parent directory missing too, the \<open>open\<close> fails with \<open>ENOENT\<close> and
  \<open>create_file\<close> returns false; no \<open>mkdir\<close> is attempted.\<close>

lemma create_file_missing_parent:
  "case create_file ''a'' ''b'' (blank_handle 4)
          (boot [reply (- 1) ENOENT, reply (- 1) ENOENT]) of
     (r, h, w) \<Rightarrow>
       r = Ret False
       \<and> calls w = [Sys_stat ''a/b'', Sys_open_creat ''a/b'']
       \<and> errors w = [Pushed ENOENT ''Unable to open file %s'']"
  by (simp add: file_defs run_defs ENOENT_def)

text \<open>
  C2. Path \<open>a\<close>, name \<open>b\<close>. The kernel's answers, in order: \<open>stat("a/b")\<close> finds a
  regular file, twice (in \<open>create_file\<close> and at the start of \<open>ensure_file_path\<close>);
  \<open>stat("a")\<close> finds a directory; \<open>mkdir("a")\<close> fails with \<open>EEXIST\<close>; \<open>open(".")\<close>
  gives descriptor 4, \<open>fsync(4)\<close> and \<open>close(4)\<close> return 0; \<open>ensure_file_path\<close> returns
  true with the name cut to \<open>a\<close>; \<open>open("a", O_CREAT ...)\<close> gives descriptor 3 (another
  process has replaced the directory by a file in the meantime); \<open>open(".")\<close> gives 4,
  \<open>fsync(4)\<close> fails with \<open>EIO\<close>, \<open>close(4)\<close> returns 0. So \<open>create_file\<close> fails after
  having opened descriptor 3, and closes it.
  In the first run \<open>close(3)\<close> returns 0: \<open>create_file\<close> returns false and reports,
  after the two fsync errors, a third error "Unable to close file" for a close that
  succeeded, with the stale \<open>errno\<close> of the fsync.
  In the second run \<open>close(3)\<close> fails with \<open>EINTR\<close>: \<open>create_file\<close> returns false and
  reports the two fsync errors only; the failed close is not reported.
\<close>

theorem create_file_close_report_inverted:
  "(case create_file ''a'' ''b'' (blank_handle 4)
          (boot [reply_stat 0x81A4 0, reply_stat 0x81A4 0, reply_stat 0x41ED 0,
                 reply (- 1) EEXIST, reply 4 0, reply 0 0, reply 0 0,
                 reply 3 0, reply 4 0, reply (- 1) EIO, reply 0 0,
                 reply 0 0]) of
      (r, h, w) \<Rightarrow>
        r = Ret False
        \<and> calls w = [Sys_stat ''a/b'', Sys_stat ''a/b'', Sys_stat ''a'', Sys_mkdir ''a'',
                     Sys_open_rdonly ''.'', Sys_fsync 4, Sys_close 4,
                     Sys_open_creat ''a'',
                     Sys_open_rdonly ''.'', Sys_fsync 4, Sys_close 4,
                     Sys_close 3]
        \<and> errors w = [Pushed EIO ''Failed to fsync parent directory of: %s'',
                      Pushed EIO
                        ''Unable to fsync parent directory after creating new file: %s'',
                      Pushed EIO ''Unable to close file (%i) %s''])
   \<and> (case create_file ''a'' ''b'' (blank_handle 4)
          (boot [reply_stat 0x81A4 0, reply_stat 0x81A4 0, reply_stat 0x41ED 0,
                 reply (- 1) EEXIST, reply 4 0, reply 0 0, reply 0 0,
                 reply 3 0, reply 4 0, reply (- 1) EIO, reply 0 0,
                 reply (- 1) EINTR]) of
      (r, h, w) \<Rightarrow>
        r = Ret False
        \<and> last (calls w) = Sys_close 3
        \<and> errno w = EINTR
        \<and> errors w = [Pushed EIO ''Failed to fsync parent directory of: %s'',
                      Pushed EIO
                        ''Unable to fsync parent directory after creating new file: %s''])"
  by (simp add: file_defs run_defs EINTR_def)

text \<open>
  C10. Path \<open>a\<close>, name \<open>b\<close>; \<open>get_file_handle_size\<close> is 8, the 4 bytes of the handle
  and 4 bytes for the name \<open>a/b\<close> with its terminator. The kernel's answers are those of
  C2, except that the second \<open>fsync(4)\<close> succeeds as well. \<open>create_file\<close> returns true
  and stores descriptor 3, and \<open>get_file_name\<close> on the handle returns \<open>a\<close>, not \<open>a/b\<close>:
  \<open>ensure_file_path\<close> has overwritten the slash with NUL and, on the path that goes on
  to the next iteration, never writes it back.
\<close>

theorem create_file_existing_file_truncates_name:
  "get_file_handle_size (Some ''a'') (Some ''b'') = 8
   \<and> (case create_file ''a'' ''b''
               (blank_handle (get_file_handle_size (Some ''a'') (Some ''b'')
                                - sizeof_file_handle_t))
          (boot [reply_stat 0x81A4 0, reply_stat 0x81A4 0, reply_stat 0x41ED 0,
                 reply (- 1) EEXIST, reply 4 0, reply 0 0, reply 0 0,
                 reply 3 0, reply 4 0, reply 0 0, reply 0 0]) of
      (r, h, w) \<Rightarrow>
        r = Ret True \<and> fd h = 3
        \<and> get_file_name h = ''a''
        \<and> name_buf h = [CHR ''a'', NUL, CHR ''b'', NUL]
        \<and> calls w = [Sys_stat ''a/b'', Sys_stat ''a/b'', Sys_stat ''a'', Sys_mkdir ''a'',
                     Sys_open_rdonly ''.'', Sys_fsync 4, Sys_close 4,
                     Sys_open_creat ''a'',
                     Sys_open_rdonly ''.'', Sys_fsync 4, Sys_close 4]
        \<and> errors w = [])"
  by (simp add: file_defs run_defs get_file_handle_size_def sizeof_file_handle_t_def)

text \<open>In a file system that no other process changes, the same call ends at the \<open>open\<close>:
  \<open>a\<close> is still a directory, \<open>open("a", O_CREAT | O_RDWR)\<close> fails with \<open>EISDIR\<close>, and
  \<open>create_file\<close> returns false for a file that exists.\<close>

lemma create_file_existing_file_fails:
  "case create_file ''a'' ''b'' (blank_handle 4)
          (boot [reply_stat 0x81A4 0, reply_stat 0x81A4 0, reply_stat 0x41ED 0,
                 reply (- 1) EEXIST, reply 4 0, reply 0 0, reply 0 0,
                 reply (- 1) EISDIR]) of
     (r, h, w) \<Rightarrow>
       r = Ret False
       \<and> get_file_name h = ''a''
       \<and> last (calls w) = Sys_open_creat ''a''
       \<and> errors w = [Pushed EISDIR ''Unable to open file %s'']"
  by (simp add: file_defs run_defs)

end
